theory Spec2Isabelle
  imports Main "HOL-Library.Word"
begin

unbundle bit_operations_syntax

section \<open>Kraken: the Socket wrapper of include/Kraken/IO/Socket.h\<close>

text \<open>
  \<open>Socket<D>\<close> is a thin synchronous layer over the socket system calls. Each member
  function checks a local condition, performs at most one system call on the stored
  descriptor and turns a failure into \<open>-errno\<close>. The embedding makes the three things
  the C++ leaves implicit into data:
  \<^item> the operating system is a function \<open>kernel\<close> from the calls made so far and the
    call being made to what the call returns and writes back;
  \<^item> the program state holds the trace of system calls made, \<open>errno\<close>, and the store of
    \<open>Socket\<close> objects (a reference is a \<open>nat\<close>, the object's only field read or written
    by Socket.h is \<open>m_descriptor\<close>), so that two references may alias;
  \<^item> an \<open>Address<D>&\<close> out-parameter is passed in and returned.
  C++ \<open>int\<close> and \<open>ssize_t\<close> are modelled by \<open>int\<close>, \<open>size_t\<close> and \<open>socklen_t\<close> by \<open>nat\<close>:
  the only arithmetic Socket.h performs is the negation of \<open>errno\<close>.
\<close>

subsection \<open>Platform constants\<close>

text \<open>
  The values of the macros that Socket.h takes from the system headers
  (\<open><errno.h>\<close>, \<open><sys/socket.h>\<close>), as Linux with glibc defines them.
\<close>

definition EBUSY :: int where "EBUSY = 16"
definition EINVAL :: int where "EINVAL = 22"
definition EBADFD :: int where "EBADFD = 77"

definition SHUT_RDWR :: int where "SHUT_RDWR = 2"

definition MSG_OOB :: int where "MSG_OOB = 0x01"
definition MSG_PEEK :: int where "MSG_PEEK = 0x02"
definition MSG_DONTROUTE :: int where "MSG_DONTROUTE = 0x04"
definition MSG_TRUNC :: int where "MSG_TRUNC = 0x20"
definition MSG_DONTWAIT :: int where "MSG_DONTWAIT = 0x40"
definition MSG_EOR :: int where "MSG_EOR = 0x80"
definition MSG_WAITALL :: int where "MSG_WAITALL = 0x100"
definition MSG_CONFIRM :: int where "MSG_CONFIRM = 0x800"
definition MSG_ERRQUEUE :: int where "MSG_ERRQUEUE = 0x2000"
definition MSG_NOSIGNAL :: int where "MSG_NOSIGNAL = 0x4000"
definition MSG_MORE :: int where "MSG_MORE = 0x8000"

subsection \<open>Enumerations of Socket.h\<close>

datatype ESocketType = Datagram | SeqPacket | Stream

text \<open>
  \<open>enum class ESendFlags\<close>: every enumerator has an initialiser. \<open>ENUM_FLAGS\<close> gives
  the type its bitwise operators, so a value of the type is any \<open>int\<close> bit pattern and
  the cast \<open>(int)flags\<close> is the identity.
\<close>

type_synonym ESendFlags = int

definition ESendFlags_None :: ESendFlags where "ESendFlags_None = 0"
definition ESendFlags_Confirm :: ESendFlags where "ESendFlags_Confirm = MSG_CONFIRM"
definition ESendFlags_DoNotRoute :: ESendFlags where "ESendFlags_DoNotRoute = MSG_DONTROUTE"
definition ESendFlags_DoNotWait :: ESendFlags where "ESendFlags_DoNotWait = MSG_DONTWAIT"
definition ESendFlags_EndOfRecord :: ESendFlags where "ESendFlags_EndOfRecord = MSG_EOR"
definition ESendFlags_More :: ESendFlags where "ESendFlags_More = MSG_MORE"
definition ESendFlags_NoSignal :: ESendFlags where "ESendFlags_NoSignal = MSG_NOSIGNAL"
definition ESendFlags_OutOfBand :: ESendFlags where "ESendFlags_OutOfBand = MSG_OOB"
definition ESendFlags_NonBlock :: ESendFlags where "ESendFlags_NonBlock = ESendFlags_DoNotWait"

text \<open>
  \<open>enum class EReceiveFlags\<close>: only \<open>None\<close>, \<open>DoNotWait\<close> and \<open>NonBlock\<close> have an
  initialiser. The five lines \<open>MSG_ERRQUEUE,\<close> \<open>MSG_OOB,\<close> \<open>MSG_PEEK,\<close> \<open>MSG_TRUNC,\<close>
  \<open>MSG_WAITALL,\<close> declare enumerators of those names (glibc defines each \<open>MSG_x\<close>
  macro as the identifier \<open>MSG_x\<close> itself), and an enumerator without an initialiser
  has the value of the previous one plus one.
\<close>

type_synonym EReceiveFlags = int

definition EReceiveFlags_None :: EReceiveFlags where
  "EReceiveFlags_None = 0"
definition EReceiveFlags_DoNotWait :: EReceiveFlags where
  "EReceiveFlags_DoNotWait = MSG_DONTWAIT"
definition EReceiveFlags_MSG_ERRQUEUE :: EReceiveFlags where
  "EReceiveFlags_MSG_ERRQUEUE = EReceiveFlags_DoNotWait + 1"
definition EReceiveFlags_MSG_OOB :: EReceiveFlags where
  "EReceiveFlags_MSG_OOB = EReceiveFlags_MSG_ERRQUEUE + 1"
definition EReceiveFlags_MSG_PEEK :: EReceiveFlags where
  "EReceiveFlags_MSG_PEEK = EReceiveFlags_MSG_OOB + 1"
definition EReceiveFlags_MSG_TRUNC :: EReceiveFlags where
  "EReceiveFlags_MSG_TRUNC = EReceiveFlags_MSG_PEEK + 1"
definition EReceiveFlags_MSG_WAITALL :: EReceiveFlags where
  "EReceiveFlags_MSG_WAITALL = EReceiveFlags_MSG_TRUNC + 1"
definition EReceiveFlags_NonBlock :: EReceiveFlags where
  "EReceiveFlags_NonBlock = EReceiveFlags_DoNotWait"

subsection \<open>The collaborators declared outside Socket.h\<close>

text \<open>
  Modelled from the spec: \<open>ESocketDomain\<close> is declared in Kraken/IO/Address.h, which is
  not among the sources. The spec names three domains (local-IPC, IPv4, IPv6);
  Socket.h instantiates \<open>Socket\<close> at \<open>ESocketDomain::Unix\<close>, \<open>IPv4\<close> and \<open>IPv6\<close>.
\<close>

datatype ESocketDomain = Unix | IPv4 | IPv6

type_synonym byte = "8 word"

text \<open>
  Modelled from the spec: \<open>Address<D>\<close> is declared in Kraken/IO/Address.h, which is not
  among the sources. The spec gives it a byte buffer, handed to the system calls through
  \<open>GetBase\<close>, and a logical length, read by \<open>GetLength\<close>.
\<close>

record Address =
  m_bytes :: "byte list"
  m_length :: nat

definition GetBase :: "Address \<Rightarrow> byte list" where
  "GetBase a = m_bytes a"

definition GetLength :: "Address \<Rightarrow> nat" where
  "GetLength a = m_length a"

text \<open>
  What Socket.h uses and the sources do not define, taken as parameters:
  \<^item> \<open>File_IsOpen\<close>: \<open>File::IsOpen\<close> as a predicate of \<open>m_descriptor\<close>, the one field
    Socket.h assigns when it acquires a descriptor;
  \<^item> \<open>File_closed\<close>: the value \<open>File::Close\<close> leaves in \<open>m_descriptor\<close>;
  \<^item> \<open>IsValid\<close>: the domain's \<open>Address<D>::IsValid\<close>;
  \<^item> \<open>s_MaxSize\<close>: the domain's capacity constant \<open>Address<D>::s_MaxSize\<close>;
  \<^item> \<open>Address_init\<close>: the default-constructed \<open>Address<D>\<close>.
\<close>

record externals =
  File_IsOpen :: "int \<Rightarrow> bool"
  File_closed :: int
  IsValid :: "ESocketDomain \<Rightarrow> Address \<Rightarrow> bool"
  s_MaxSize :: "ESocketDomain \<Rightarrow> nat"
  Address_init :: "ESocketDomain \<Rightarrow> Address"

text \<open>
  Modelled from the spec: \<open>Address<D>::SetLength\<close> is declared in Kraken/IO/Address.h,
  which is not among the sources. The spec: a mutator to record a kernel-reported length;
  the length is updated to the kernel-reported value, clamped to \<open>s_MaxSize\<close>; the length
  of an address never exceeds the domain's maximum.
\<close>

definition SetLength :: "externals \<Rightarrow> ESocketDomain \<Rightarrow> nat \<Rightarrow> Address \<Rightarrow> Address" where
  "SetLength X D n a = a\<lparr>m_length := min n (s_MaxSize X D)\<rparr>"

text \<open>
  A buffer pointer (\<open>void *\<close>) is null or the address of some memory; \<open>membuf\<close> and
  \<open>const_membuf\<close> are a pointer with a length.
\<close>

datatype ptr = nullptr | Ptr nat

record membuf =
  buffer :: ptr
  length_m :: nat

type_synonym const_membuf = membuf

subsection \<open>System calls and program state\<close>

text \<open>
  One constructor for each system call that Socket.h (or \<open>File::Close\<close>) makes, with the
  arguments passed. An address argument is the bytes behind \<open>GetBase\<close> and a length; for
  \<open>accept\<close> and \<open>recvfrom\<close> the length is the initial value of \<open>addressLength\<close>.
\<close>

datatype syscall =
    sys_socket ESocketDomain ESocketType int
  | sys_bind int "byte list" nat
  | sys_listen int int
  | sys_connect int "byte list" nat
  | sys_accept int "byte list" nat
  | sys_send int ptr nat int
  | sys_sendto int ptr nat int "byte list" nat
  | sys_recv int ptr nat int
  | sys_recvfrom int ptr nat int "byte list" nat
  | sys_shutdown int int
  | sys_socketpair ESocketDomain ESocketType int
  | sys_close int

text \<open>
  What a call gives back: its return value; the new value of \<open>errno\<close> if it sets it;
  for \<open>accept\<close> and \<open>recvfrom\<close> the address bytes and the address length if it writes
  them; for \<open>socketpair\<close> the two descriptors if it writes them.
\<close>

record sysresult =
  ret :: int
  errno_out :: "int option"
  addr_out :: "(byte list \<times> nat) option"
  fds_out :: "(int \<times> int) option"

type_synonym kernel = "syscall list \<Rightarrow> syscall \<Rightarrow> sysresult"

type_synonym sock_ref = nat

record state =
  calls :: "syscall list"
  errno :: int
  m_descriptor :: "sock_ref \<Rightarrow> int"

definition do_syscall :: "kernel \<Rightarrow> syscall \<Rightarrow> state \<Rightarrow> sysresult \<times> state" where
  "do_syscall K c st =
     (let r = K (calls st) c
      in (r, st\<lparr>calls := calls st @ [c],
                errno := (case errno_out r of None \<Rightarrow> errno st | Some e \<Rightarrow> e)\<rparr>))"

subsection \<open>File (base class)\<close>

text \<open>
  Modelled from the spec: \<open>File::IsOpen\<close> is declared in Kraken/IO/File.h, which is not
  among the sources. The spec: the resource exposes its open or closed state; here the
  state of the object \<open>this\<close> is the parameter \<open>File_IsOpen\<close> at its descriptor.
\<close>

definition IsOpen :: "externals \<Rightarrow> state \<Rightarrow> sock_ref \<Rightarrow> bool" where
  "IsOpen X st this = File_IsOpen X (m_descriptor st this)"

text \<open>
  Modelled from the spec: \<open>File::Close\<close> is declared in Kraken/IO/File.h, which is not
  among the sources. The spec: an idempotent release operation, safe to call on an
  already-closed resource; it releases the descriptor and clears the handle.
\<close>

definition Close :: "externals \<Rightarrow> kernel \<Rightarrow> sock_ref \<Rightarrow> state \<Rightarrow> state" where
  "Close X K this st =
     (if IsOpen X st this then
        (let (r, st1) = do_syscall K (sys_close (m_descriptor st this)) st
         in st1\<lparr>m_descriptor := (m_descriptor st1)(this := File_closed X)\<rparr>)
      else st)"

subsection \<open>Socket\<close>

text \<open>
  The member functions of \<open>Socket<D>\<close>, in the order of Socket.h. Each takes the
  object \<open>this\<close> and the state and returns its result with the new state. The template
  parameter \<open>D\<close> is an argument where the body uses it, and the casts \<open>(int)D\<close> and
  \<open>(int)type\<close> are left to the system call. \<open>KRAKEN_PRINT\<close> in \<open>Bind\<close> is a
  diagnostic and has no part in the result.
\<close>

definition Shutdown :: "externals \<Rightarrow> kernel \<Rightarrow> sock_ref \<Rightarrow> state \<Rightarrow> state" where
  "Shutdown X K this st =
     (let (r, st1) = do_syscall K (sys_shutdown (m_descriptor st this) SHUT_RDWR) st
      in Close X K this st1)"

text \<open>The body of \<open>~Socket\<close>.\<close>

definition Socket_dtor :: "externals \<Rightarrow> kernel \<Rightarrow> sock_ref \<Rightarrow> state \<Rightarrow> state" where
  "Socket_dtor X K this st = (if IsOpen X st this then Shutdown X K this st else st)"

definition Open ::
  "externals \<Rightarrow> kernel \<Rightarrow> ESocketDomain \<Rightarrow> sock_ref \<Rightarrow> ESocketType \<Rightarrow> state \<Rightarrow> int \<times> state" where
  "Open X K D this type st =
     (if IsOpen X st this then (- EBUSY, st)
      else
        (let (r, st1) = do_syscall K (sys_socket D type 0) st;
             descriptor = ret r
         in if descriptor < 0 then (- errno st1, st1)
            else (0, st1\<lparr>m_descriptor := (m_descriptor st1)(this := descriptor)\<rparr>)))"

definition Bind ::
  "externals \<Rightarrow> kernel \<Rightarrow> ESocketDomain \<Rightarrow> sock_ref \<Rightarrow> Address \<Rightarrow> state \<Rightarrow> int \<times> state" where
  "Bind X K D this localAddress st =
     (if \<not> IsValid X D localAddress then (- EINVAL, st)
      else
        (let (r, st1) = do_syscall K
               (sys_bind (m_descriptor st this) (GetBase localAddress) (GetLength localAddress)) st;
             err = ret r
         in if err \<noteq> 0 then (- errno st1, st1) else (0, st1)))"

definition Listen :: "kernel \<Rightarrow> sock_ref \<Rightarrow> int \<Rightarrow> state \<Rightarrow> int \<times> state" where
  "Listen K this backlog st =
     (let (r, st1) = do_syscall K (sys_listen (m_descriptor st this) backlog) st;
          err = ret r
      in (if err < 0 then - errno st1 else err, st1))"

definition Connect :: "kernel \<Rightarrow> sock_ref \<Rightarrow> Address \<Rightarrow> state \<Rightarrow> int \<times> state" where
  "Connect K this remoteAddress st =
     (let (r, st1) = do_syscall K
            (sys_connect (m_descriptor st this) (GetBase remoteAddress) (GetLength remoteAddress)) st;
          err = ret r
      in if err \<noteq> 0 then (- errno st1, st1) else (0, st1))"

text \<open>
  The kernel writes through the pointers it is given: the bytes behind \<open>GetBase\<close> and
  the local \<open>addressLength\<close>, which starts at \<open>s_MaxSize\<close>.
\<close>

definition kernel_writes_address :: "sysresult \<Rightarrow> Address \<Rightarrow> nat \<Rightarrow> Address \<times> nat" where
  "kernel_writes_address r a addressLength =
     (case addr_out r of
        None \<Rightarrow> (a, addressLength)
      | Some (bs, n) \<Rightarrow> (a\<lparr>m_bytes := bs\<rparr>, n))"

text \<open>The length the kernel reports: the value of \<open>addressLength\<close> after the call.\<close>

definition reported_length :: "externals \<Rightarrow> ESocketDomain \<Rightarrow> sysresult \<Rightarrow> nat" where
  "reported_length X D r = (case addr_out r of None \<Rightarrow> s_MaxSize X D | Some (bs, n) \<Rightarrow> n)"

text \<open>The two-argument \<open>Accept\<close>; the address out-parameter is returned.\<close>

definition Accept ::
  "externals \<Rightarrow> kernel \<Rightarrow> ESocketDomain \<Rightarrow> sock_ref \<Rightarrow> sock_ref \<Rightarrow> Address \<Rightarrow> state
     \<Rightarrow> int \<times> Address \<times> state" where
  "Accept X K D this o_client o_clientAddress st =
     (if IsOpen X st o_client then (- EBUSY, o_clientAddress, st)
      else
        (let (r, st1) = do_syscall K
               (sys_accept (m_descriptor st this) (GetBase o_clientAddress) (s_MaxSize X D)) st;
             (a1, addressLength) = kernel_writes_address r o_clientAddress (s_MaxSize X D);
             descriptor = ret r
         in if descriptor < 0 then (- errno st1, a1, st1)
            else (0, SetLength X D addressLength a1,
                  st1\<lparr>m_descriptor := (m_descriptor st1)(o_client := descriptor)\<rparr>)))"

text \<open>The one-argument \<open>Accept\<close>: the address is a local object, dropped on return.\<close>

definition Accept1 ::
  "externals \<Rightarrow> kernel \<Rightarrow> ESocketDomain \<Rightarrow> sock_ref \<Rightarrow> sock_ref \<Rightarrow> state \<Rightarrow> int \<times> state" where
  "Accept1 X K D this o_client st =
     (let wastefulImplementationDetail = Address_init X D;
          (e, a, st1) = Accept X K D this o_client wastefulImplementationDetail st
      in (e, st1))"

definition Send :: "kernel \<Rightarrow> sock_ref \<Rightarrow> ptr \<Rightarrow> nat \<Rightarrow> ESendFlags \<Rightarrow> state \<Rightarrow> int \<times> state" where
  "Send K this buf len flags st =
     (if buf = nullptr then (- EINVAL, st)
      else
        (let (r, st1) = do_syscall K (sys_send (m_descriptor st this) buf len flags) st;
             bytesSent = ret r
         in (if bytesSent < 0 then - errno st1 else bytesSent, st1)))"

definition Send_to ::
  "kernel \<Rightarrow> sock_ref \<Rightarrow> ptr \<Rightarrow> nat \<Rightarrow> Address \<Rightarrow> ESendFlags \<Rightarrow> state \<Rightarrow> int \<times> state" where
  "Send_to K this buf len destination flags st =
     (if buf = nullptr then (- EINVAL, st)
      else
        (let (r, st1) = do_syscall K
               (sys_sendto (m_descriptor st this) buf len flags
                  (GetBase destination) (GetLength destination)) st;
             bytesSent = ret r
         in (if bytesSent < 0 then - errno st1 else bytesSent, st1)))"

definition Receive ::
  "kernel \<Rightarrow> sock_ref \<Rightarrow> ptr \<Rightarrow> nat \<Rightarrow> EReceiveFlags \<Rightarrow> state \<Rightarrow> int \<times> state" where
  "Receive K this o_buffer len flags st =
     (if o_buffer = nullptr then (- EINVAL, st)
      else
        (let (r, st1) = do_syscall K (sys_recv (m_descriptor st this) o_buffer len flags) st;
             bytesReceived = ret r
         in (if bytesReceived < 0 then - errno st1 else bytesReceived, st1)))"

definition Receive_from ::
  "externals \<Rightarrow> kernel \<Rightarrow> ESocketDomain \<Rightarrow> sock_ref \<Rightarrow> ptr \<Rightarrow> nat \<Rightarrow> Address \<Rightarrow> EReceiveFlags
     \<Rightarrow> state \<Rightarrow> int \<times> Address \<times> state" where
  "Receive_from X K D this o_buffer len o_senderAddress flags st =
     (if o_buffer = nullptr then (- EINVAL, o_senderAddress, st)
      else
        (let (r, st1) = do_syscall K
               (sys_recvfrom (m_descriptor st this) o_buffer len flags
                  (GetBase o_senderAddress) (s_MaxSize X D)) st;
             (a1, addressLength) = kernel_writes_address r o_senderAddress (s_MaxSize X D);
             bytesReceived = ret r
         in if bytesReceived < 0 then (- errno st1, a1, st1)
            else (bytesReceived, SetLength X D addressLength a1, st1)))"

text \<open>The four \<open>membuf\<close> overloads pass the buffer's pointer and length on.\<close>

definition Send_membuf ::
  "kernel \<Rightarrow> sock_ref \<Rightarrow> const_membuf \<Rightarrow> ESendFlags \<Rightarrow> state \<Rightarrow> int \<times> state" where
  "Send_membuf K this mem flags st = Send K this (buffer mem) (length_m mem) flags st"

definition Send_membuf_to ::
  "kernel \<Rightarrow> sock_ref \<Rightarrow> const_membuf \<Rightarrow> Address \<Rightarrow> ESendFlags \<Rightarrow> state \<Rightarrow> int \<times> state" where
  "Send_membuf_to K this mem destination flags st =
     Send_to K this (buffer mem) (length_m mem) destination flags st"

definition Receive_membuf ::
  "kernel \<Rightarrow> sock_ref \<Rightarrow> membuf \<Rightarrow> EReceiveFlags \<Rightarrow> state \<Rightarrow> int \<times> state" where
  "Receive_membuf K this o_mem flags st = Receive K this (buffer o_mem) (length_m o_mem) flags st"

definition Receive_membuf_from ::
  "externals \<Rightarrow> kernel \<Rightarrow> ESocketDomain \<Rightarrow> sock_ref \<Rightarrow> membuf \<Rightarrow> Address \<Rightarrow> EReceiveFlags
     \<Rightarrow> state \<Rightarrow> int \<times> Address \<times> state" where
  "Receive_membuf_from X K D this o_mem o_senderAddress flags st =
     Receive_from X K D this (buffer o_mem) (length_m o_mem) o_senderAddress flags st"

text \<open>
  The static \<open>Pair\<close> (named \<open>Pair_sock\<close>: \<open>Pair\<close> is the pair constructor of HOL).
  The local array \<open>fds\<close> starts as \<open>{-EBADFD, -EBADFD}\<close> and holds
  what the kernel writes, if it writes.
\<close>

definition Pair_sock ::
  "externals \<Rightarrow> kernel \<Rightarrow> ESocketDomain \<Rightarrow> ESocketType \<Rightarrow> sock_ref \<Rightarrow> sock_ref \<Rightarrow> state
     \<Rightarrow> int \<times> state" where
  "Pair_sock X K D type o_socket1 o_socket2 st =
     (if IsOpen X st o_socket1 \<or> IsOpen X st o_socket2 then (- EBUSY, st)
      else
        (let (r, st1) = do_syscall K (sys_socketpair D type 0) st;
             fds = (case fds_out r of None \<Rightarrow> (- EBADFD, - EBADFD) | Some p \<Rightarrow> p);
             sockErr = ret r
         in if sockErr \<noteq> 0 then (- errno st1, st1)
            else (0, st1\<lparr>m_descriptor :=
                          ((m_descriptor st1)(o_socket1 := fst fds))(o_socket2 := snd fds)\<rparr>)))"

subsection \<open>Example environments\<close>

text \<open>
  Concrete collaborators on which the theorems are exercised: a file is open when its
  descriptor is not negative and \<open>Close\<close> leaves \<open>-1\<close>; an address is valid when its
  length is positive; every domain has capacity 16.
\<close>

definition X0 :: externals where
  "X0 = \<lparr>File_IsOpen = (\<lambda>fd. 0 \<le> fd), File_closed = - 1,
         IsValid = (\<lambda>D a. 0 < m_length a), s_MaxSize = (\<lambda>D. 16),
         Address_init = (\<lambda>D. \<lparr>m_bytes = replicate 16 0, m_length = 0\<rparr>)\<rparr>"

text \<open>
  A kernel where every call succeeds: \<open>socket\<close> and \<open>accept\<close> return descriptor 7,
  \<open>socketpair\<close> writes descriptors 8 and 9, transfers return the length asked for, and
  \<open>accept\<close> and \<open>recvfrom\<close> report an address of 110 bytes, more than the capacity.
\<close>

fun K_ok :: kernel where
  "K_ok h (sys_socket D t p) = \<lparr>ret = 7, errno_out = None, addr_out = None, fds_out = None\<rparr>"
| "K_ok h (sys_accept fd b n) =
     \<lparr>ret = 7, errno_out = None, addr_out = Some (replicate n 1, 110), fds_out = None\<rparr>"
| "K_ok h (sys_send fd b n f) =
     \<lparr>ret = int n, errno_out = None, addr_out = None, fds_out = None\<rparr>"
| "K_ok h (sys_sendto fd b n f a l) =
     \<lparr>ret = int n, errno_out = None, addr_out = None, fds_out = None\<rparr>"
| "K_ok h (sys_recv fd b n f) =
     \<lparr>ret = int n, errno_out = None, addr_out = None, fds_out = None\<rparr>"
| "K_ok h (sys_recvfrom fd b n f a l) =
     \<lparr>ret = int n, errno_out = None, addr_out = Some (replicate l 1, 110), fds_out = None\<rparr>"
| "K_ok h (sys_socketpair D t p) =
     \<lparr>ret = 0, errno_out = None, addr_out = None, fds_out = Some (8, 9)\<rparr>"
| "K_ok h c = \<lparr>ret = 0, errno_out = None, addr_out = None, fds_out = None\<rparr>"

text \<open>A kernel where every call fails with the error \<open>e\<close> and writes nothing back.\<close>

definition K_fail :: "int \<Rightarrow> kernel" where
  "K_fail e h c = \<lparr>ret = - 1, errno_out = Some e, addr_out = None, fds_out = None\<rparr>"

text \<open>A state with an open socket (reference 0, descriptor 3) and closed ones.\<close>

definition st0 :: state where
  "st0 = \<lparr>calls = [], errno = 0, m_descriptor = (\<lambda>r. if r = 0 then 3 else - 1)\<rparr>"

section \<open>Properties\<close>

text \<open>
  C1. For every domain, calling \<open>Open\<close> on a socket that is already open returns
  \<open>-EBUSY\<close>; the whole state is returned as it was: the socket's descriptor (and that
  of every other socket) is unchanged, and no system call is made, so no new descriptor
  is acquired.
\<close>

theorem Open_already_open:
  "IsOpen X st this \<Longrightarrow> Open X K D this type st = (- EBUSY, st)"
  by (simp add: Open_def)

theorem Open_already_open_witness:
  "IsOpen X0 st0 0 \<and> Open X0 K_ok IPv4 0 Stream st0 = (- EBUSY, st0)"
proof -
  have h: "IsOpen X0 st0 0"
    by (simp add: IsOpen_def X0_def st0_def)
  show ?thesis
    using h Open_already_open [OF h, of K_ok IPv4 Stream] by simp
qed

text \<open>
  C2. For every domain, \<open>Accept\<close> into a client socket that is already open returns
  \<open>-EBUSY\<close> and returns the state as it was (the client's descriptor is unchanged and
  no system call is made); the two-argument form returns the address out-parameter as
  it was.
\<close>

theorem Accept_into_open_client:
  "IsOpen X st o_client \<Longrightarrow>
     Accept X K D this o_client o_clientAddress st = (- EBUSY, o_clientAddress, st) \<and>
     Accept1 X K D this o_client st = (- EBUSY, st)"
  by (simp add: Accept_def Accept1_def)

theorem Accept_into_open_client_witness:
  "IsOpen X0 st0 0 \<and>
   Accept X0 K_ok Unix 1 0 \<lparr>m_bytes = [], m_length = 0\<rparr> st0
     = (- EBUSY, \<lparr>m_bytes = [], m_length = 0\<rparr>, st0) \<and>
   Accept1 X0 K_ok Unix 1 0 st0 = (- EBUSY, st0)"
proof -
  have h: "IsOpen X0 st0 0"
    by (simp add: IsOpen_def X0_def st0_def)
  show ?thesis
    using h Accept_into_open_client [OF h, of K_ok Unix 1 "\<lparr>m_bytes = [], m_length = 0\<rparr>"]
    by simp
qed

text \<open>
  C3. Each of the four \<open>Send\<close> overloads and each of the four \<open>Receive\<close> overloads,
  called with a null buffer pointer, returns \<open>-EINVAL\<close> for every socket state, length
  and flag value, and returns the state as it was: the trace of system calls is not
  extended, so none of \<open>send\<close>, \<open>sendto\<close>, \<open>recv\<close>, \<open>recvfrom\<close> is invoked, and the
  address out-parameter is returned as it was.
\<close>

theorem null_buffer_rejected:
  "Send K this nullptr len sflags st = (- EINVAL, st) \<and>
   Send_to K this nullptr len destination sflags st = (- EINVAL, st) \<and>
   Send_membuf K this \<lparr>buffer = nullptr, length_m = len\<rparr> sflags st = (- EINVAL, st) \<and>
   Send_membuf_to K this \<lparr>buffer = nullptr, length_m = len\<rparr> destination sflags st
     = (- EINVAL, st) \<and>
   Receive K this nullptr len rflags st = (- EINVAL, st) \<and>
   Receive_from X K D this nullptr len o_senderAddress rflags st
     = (- EINVAL, o_senderAddress, st) \<and>
   Receive_membuf K this \<lparr>buffer = nullptr, length_m = len\<rparr> rflags st = (- EINVAL, st) \<and>
   Receive_membuf_from X K D this \<lparr>buffer = nullptr, length_m = len\<rparr> o_senderAddress rflags st
     = (- EINVAL, o_senderAddress, st)"
  by (simp add: Send_def Send_to_def Send_membuf_def Send_membuf_to_def
      Receive_def Receive_from_def Receive_membuf_def Receive_membuf_from_def)

subsection \<open>The recorded address length\<close>

lemma kernel_writes_address_length:
  "kernel_writes_address r a (s_MaxSize X D) = (a1, n) \<Longrightarrow> n = reported_length X D r"
  by (auto simp: kernel_writes_address_def reported_length_def split: option.splits prod.splits)

lemma GetLength_SetLength: "GetLength (SetLength X D n a) = min n (s_MaxSize X D)"
  by (simp add: GetLength_def SetLength_def)

lemma Accept_success_length:
  assumes "\<not> IsOpen X st o_client"
    and "0 \<le> ret (K (calls st) (sys_accept (m_descriptor st this) (GetBase a) (s_MaxSize X D)))"
  shows "GetLength (fst (snd (Accept X K D this o_client a st)))
     = min (reported_length X D
              (K (calls st) (sys_accept (m_descriptor st this) (GetBase a) (s_MaxSize X D))))
           (s_MaxSize X D)"
  using assms
  by (auto simp: Accept_def do_syscall_def Let_def GetLength_SetLength
      split: prod.splits dest!: kernel_writes_address_length)

lemma Receive_from_success_length:
  assumes "o_buffer \<noteq> nullptr"
    and "0 \<le> ret (K (calls st)
           (sys_recvfrom (m_descriptor st this) o_buffer len flags (GetBase a) (s_MaxSize X D)))"
  shows "GetLength (fst (snd (Receive_from X K D this o_buffer len a flags st)))
     = min (reported_length X D
              (K (calls st)
                (sys_recvfrom (m_descriptor st this) o_buffer len flags (GetBase a) (s_MaxSize X D))))
           (s_MaxSize X D)"
  using assms
  by (auto simp: Receive_from_def do_syscall_def Let_def GetLength_SetLength
      split: prod.splits dest!: kernel_writes_address_length)

text \<open>
  C4. When \<open>Accept\<close> with an address succeeds (the client is closed and \<open>accept\<close>
  returns a descriptor), and when \<open>Receive\<close> with a sender succeeds (the buffer is
  not null and \<open>recvfrom\<close> returns a count), the length of the returned address is the
  length the kernel reported, clamped to the capacity \<open>s_MaxSize\<close> of the domain; so it
  is at most \<open>s_MaxSize\<close>. Socket.h hands the reported length to \<open>SetLength\<close> as it
  is; the clamp is the one the spec gives \<open>SetLength\<close>.
\<close>

theorem recorded_address_length_clamped:
  "(let r = K (calls st) (sys_accept (m_descriptor st this) (GetBase a) (s_MaxSize X D));
        a' = fst (snd (Accept X K D this o_client a st))
    in \<not> IsOpen X st o_client \<and> 0 \<le> ret r \<longrightarrow>
         GetLength a' = min (reported_length X D r) (s_MaxSize X D) \<and>
         GetLength a' \<le> s_MaxSize X D) \<and>
   (let r = K (calls st)
          (sys_recvfrom (m_descriptor st this) o_buffer len flags (GetBase a) (s_MaxSize X D));
        a' = fst (snd (Receive_from X K D this o_buffer len a flags st))
    in o_buffer \<noteq> nullptr \<and> 0 \<le> ret r \<longrightarrow>
         GetLength a' = min (reported_length X D r) (s_MaxSize X D) \<and>
         GetLength a' \<le> s_MaxSize X D)"
  by (simp add: Let_def Accept_success_length Receive_from_success_length)

theorem recorded_address_length_clamped_witness:
  "\<not> IsOpen X0 st0 1 \<and>
   0 \<le> ret (K_ok [] (sys_accept 3 [] 16)) \<and>
   reported_length X0 Unix (K_ok [] (sys_accept 3 [] 16)) = 110 \<and>
   GetLength (fst (snd (Accept X0 K_ok Unix 0 1 \<lparr>m_bytes = [], m_length = 0\<rparr> st0))) = 16 \<and>
   Ptr 5 \<noteq> nullptr \<and>
   0 \<le> ret (K_ok [] (sys_recvfrom 3 (Ptr 5) 4 0 [] 16)) \<and>
   reported_length X0 Unix (K_ok [] (sys_recvfrom 3 (Ptr 5) 4 0 [] 16)) = 110 \<and>
   GetLength (fst (snd (Receive_from X0 K_ok Unix 0 (Ptr 5) 4 \<lparr>m_bytes = [], m_length = 0\<rparr> 0 st0)))
     = 16"
  using recorded_address_length_clamped
    [of K_ok st0 0 "\<lparr>m_bytes = [], m_length = 0\<rparr>" X0 Unix 1 "Ptr 5" 4 0]
  by (simp add: Let_def IsOpen_def X0_def st0_def GetBase_def reported_length_def)

subsection \<open>Flag values\<close>

lemma ESendFlags_values:
  "ESendFlags_None = 0 \<and> ESendFlags_Confirm = MSG_CONFIRM \<and>
   ESendFlags_DoNotRoute = MSG_DONTROUTE \<and> ESendFlags_DoNotWait = MSG_DONTWAIT \<and>
   ESendFlags_EndOfRecord = MSG_EOR \<and> ESendFlags_More = MSG_MORE \<and>
   ESendFlags_NoSignal = MSG_NOSIGNAL \<and> ESendFlags_OutOfBand = MSG_OOB \<and>
   ESendFlags_NonBlock = MSG_DONTWAIT \<and>
   EReceiveFlags_None = 0 \<and> EReceiveFlags_DoNotWait = MSG_DONTWAIT \<and>
   EReceiveFlags_NonBlock = MSG_DONTWAIT"
  by (simp add: ESendFlags_None_def ESendFlags_Confirm_def ESendFlags_DoNotRoute_def
      ESendFlags_DoNotWait_def ESendFlags_EndOfRecord_def ESendFlags_More_def
      ESendFlags_NoSignal_def ESendFlags_OutOfBand_def ESendFlags_NonBlock_def
      EReceiveFlags_None_def EReceiveFlags_DoNotWait_def EReceiveFlags_NonBlock_def)

text \<open>
  C5 (fails on the receive flags). The enumerators \<open>MSG_ERRQUEUE\<close>, \<open>MSG_OOB\<close>,
  \<open>MSG_PEEK\<close>, \<open>MSG_TRUNC\<close> and \<open>MSG_WAITALL\<close> of \<open>EReceiveFlags\<close> have the values
  65 to 69, not the values of the system's flags of those names. \<open>Receive\<close> passes the
  flag value on as it is, so asking for \<open>EReceiveFlags::MSG_PEEK\<close> calls \<open>recv\<close>
  with 67, which the system reads as \<open>MSG_DONTWAIT | MSG_PEEK | MSG_OOB\<close>.
\<close>

theorem EReceiveFlags_values:
  "EReceiveFlags_MSG_ERRQUEUE = 0x41 \<and> MSG_ERRQUEUE = 0x2000 \<and>
   EReceiveFlags_MSG_OOB = 0x42 \<and> MSG_OOB = 0x01 \<and>
   EReceiveFlags_MSG_PEEK = 0x43 \<and> MSG_PEEK = 0x02 \<and>
   EReceiveFlags_MSG_TRUNC = 0x44 \<and> MSG_TRUNC = 0x20 \<and>
   EReceiveFlags_MSG_WAITALL = 0x45 \<and> MSG_WAITALL = 0x100 \<and>
   EReceiveFlags_MSG_PEEK = (MSG_DONTWAIT OR MSG_PEEK OR MSG_OOB) \<and>
   Receive K_ok 0 (Ptr 0) 4 EReceiveFlags_MSG_PEEK st0
     = (4, st0\<lparr>calls := [sys_recv 3 (Ptr 0) 4 0x43]\<rparr>)"
  by (simp add: EReceiveFlags_MSG_ERRQUEUE_def EReceiveFlags_MSG_OOB_def
      EReceiveFlags_MSG_PEEK_def EReceiveFlags_MSG_TRUNC_def EReceiveFlags_MSG_WAITALL_def
      EReceiveFlags_DoNotWait_def MSG_ERRQUEUE_def MSG_OOB_def MSG_PEEK_def MSG_TRUNC_def
      MSG_WAITALL_def MSG_DONTWAIT_def Receive_def do_syscall_def st0_def)

text \<open>
  C6. \<open>Bind\<close> with an address that is not valid returns \<open>-EINVAL\<close> and returns the
  state as it was, so \<open>bind\<close> is not called. With a valid address it makes exactly one
  system call, \<open>bind\<close> on the stored descriptor with the address's base and length, and
  returns 0 when the call returns 0 and the negated \<open>errno\<close> (as the call left it)
  otherwise.
\<close>

theorem Bind_checks_validity:
  "(\<not> IsValid X D a \<longrightarrow> Bind X K D this a st = (- EINVAL, st)) \<and>
   (IsValid X D a \<longrightarrow>
      (let c = sys_bind (m_descriptor st this) (GetBase a) (GetLength a);
           r = K (calls st) c;
           (e, st') = Bind X K D this a st
       in calls st' = calls st @ [c] \<and>
          m_descriptor st' = m_descriptor st \<and>
          errno st' = (case errno_out r of None \<Rightarrow> errno st | Some n \<Rightarrow> n) \<and>
          (ret r = 0 \<longrightarrow> e = 0) \<and>
          (ret r \<noteq> 0 \<longrightarrow> e = - errno st')))"
  by (simp add: Bind_def do_syscall_def Let_def)

theorem Bind_checks_validity_witness:
  "\<not> IsValid X0 IPv4 \<lparr>m_bytes = [], m_length = 0\<rparr> \<and>
   Bind X0 K_ok IPv4 0 \<lparr>m_bytes = [], m_length = 0\<rparr> st0 = (- EINVAL, st0) \<and>
   IsValid X0 IPv4 \<lparr>m_bytes = [2, 0], m_length = 2\<rparr> \<and>
   ret (K_ok [] (sys_bind 3 [2, 0] 2)) = 0 \<and>
   fst (Bind X0 K_ok IPv4 0 \<lparr>m_bytes = [2, 0], m_length = 2\<rparr> st0) = 0 \<and>
   calls (snd (Bind X0 K_ok IPv4 0 \<lparr>m_bytes = [2, 0], m_length = 2\<rparr> st0))
     = [sys_bind 3 [2, 0] 2] \<and>
   ret (K_fail 9 [] (sys_bind 3 [2, 0] 2)) \<noteq> 0 \<and>
   fst (Bind X0 (K_fail 9) IPv4 0 \<lparr>m_bytes = [2, 0], m_length = 2\<rparr> st0) = - 9"
  using Bind_checks_validity [of X0 IPv4 "\<lparr>m_bytes = [], m_length = 0\<rparr>" K_ok 0 st0]
    Bind_checks_validity [of X0 IPv4 "\<lparr>m_bytes = [2, 0], m_length = 2\<rparr>" K_ok 0 st0]
    Bind_checks_validity [of X0 IPv4 "\<lparr>m_bytes = [2, 0], m_length = 2\<rparr>" "K_fail 9" 0 st0]
  by (simp add: X0_def st0_def K_fail_def GetBase_def GetLength_def Let_def case_prod_beta)

subsection \<open>Shutdown, step by step\<close>

lemma Shutdown_open:
  assumes "IsOpen X st this"
  shows "calls (Shutdown X K this st)
           = calls st @ [sys_shutdown (m_descriptor st this) SHUT_RDWR,
                         sys_close (m_descriptor st this)]"
    and "m_descriptor (Shutdown X K this st) = (m_descriptor st)(this := File_closed X)"
  using assms by (simp_all add: Shutdown_def Close_def do_syscall_def Let_def IsOpen_def)

lemma Shutdown_closed:
  assumes "\<not> IsOpen X st this"
  shows "calls (Shutdown X K this st)
           = calls st @ [sys_shutdown (m_descriptor st this) SHUT_RDWR]"
    and "m_descriptor (Shutdown X K this st) = m_descriptor st"
  using assms by (simp_all add: Shutdown_def Close_def do_syscall_def Let_def IsOpen_def)

lemma Shutdown_not_open:
  assumes "\<not> File_IsOpen X (File_closed X)"
  shows "\<not> IsOpen X (Shutdown X K this st) this"
proof (cases "IsOpen X st this")
  case True
  then show ?thesis
    using assms by (simp add: IsOpen_def Shutdown_open(2))
next
  case False
  then show ?thesis
    by (simp add: IsOpen_def Shutdown_closed(2))
qed

text \<open>
  C7. Given of \<open>File\<close> that the value \<open>Close\<close> leaves is not an open descriptor:
  \<open>Shutdown\<close> on an open socket calls \<open>shutdown\<close> with \<open>SHUT_RDWR\<close> and then \<open>close\<close>
  on the descriptor, and leaves only this socket's descriptor changed; after
  \<open>Shutdown\<close> the socket is never open. On a closed socket it releases nothing: no
  \<open>close\<close> is made and no descriptor changes (the \<open>shutdown\<close> call on the stored value
  is still made), and a second \<open>Shutdown\<close> leaves the descriptors as the first did.
  The destructor is \<open>Shutdown\<close> when the socket is open and nothing when it is closed:
  it makes the \<open>shutdown\<close> call once in the first case and not at all in the second, and
  the socket is not open afterwards.
\<close>

theorem Shutdown_and_destructor:
  assumes "\<not> File_IsOpen X (File_closed X)"
  shows
   "(IsOpen X st this \<longrightarrow>
       calls (Shutdown X K this st)
         = calls st @ [sys_shutdown (m_descriptor st this) SHUT_RDWR,
                       sys_close (m_descriptor st this)] \<and>
       m_descriptor (Shutdown X K this st) = (m_descriptor st)(this := File_closed X)) \<and>
    \<not> IsOpen X (Shutdown X K this st) this \<and>
    (\<not> IsOpen X st this \<longrightarrow>
       calls (Shutdown X K this st)
         = calls st @ [sys_shutdown (m_descriptor st this) SHUT_RDWR] \<and>
       m_descriptor (Shutdown X K this st) = m_descriptor st) \<and>
    m_descriptor (Shutdown X K' this (Shutdown X K this st))
      = m_descriptor (Shutdown X K this st) \<and>
    Socket_dtor X K this st = (if IsOpen X st this then Shutdown X K this st else st) \<and>
    length (filter (\<lambda>c. c = sys_shutdown (m_descriptor st this) SHUT_RDWR)
              (drop (length (calls st)) (calls (Socket_dtor X K this st))))
      = (if IsOpen X st this then 1 else 0) \<and>
    \<not> IsOpen X (Socket_dtor X K this st) this"
proof -
  have closed: "\<not> IsOpen X (Shutdown X K this st) this"
    using assms by (rule Shutdown_not_open)
  have again: "m_descriptor (Shutdown X K' this (Shutdown X K this st))
      = m_descriptor (Shutdown X K this st)"
    using closed by (rule Shutdown_closed(2))
  have dtor: "\<not> IsOpen X (Socket_dtor X K this st) this"
    using closed by (simp add: Socket_dtor_def)
  have once: "length (filter (\<lambda>c. c = sys_shutdown (m_descriptor st this) SHUT_RDWR)
              (drop (length (calls st)) (calls (Socket_dtor X K this st))))
      = (if IsOpen X st this then 1 else 0)"
    by (simp add: Socket_dtor_def Shutdown_open(1))
  show ?thesis
    using closed again dtor once
    by (simp add: Shutdown_open Shutdown_closed Socket_dtor_def)
qed

theorem Shutdown_and_destructor_witness:
  "\<not> File_IsOpen X0 (File_closed X0) \<and>
   IsOpen X0 st0 0 \<and>
   calls (Shutdown X0 K_ok 0 st0) = [sys_shutdown 3 SHUT_RDWR, sys_close 3] \<and>
   m_descriptor (Shutdown X0 K_ok 0 st0) 0 = - 1 \<and>
   \<not> IsOpen X0 (Shutdown X0 K_ok 0 st0) 0 \<and>
   \<not> IsOpen X0 st0 1 \<and>
   calls (Shutdown X0 (K_fail 9) 1 st0) = [sys_shutdown (- 1) SHUT_RDWR] \<and>
   m_descriptor (Shutdown X0 (K_fail 9) 1 st0) = m_descriptor st0 \<and>
   Socket_dtor X0 K_ok 0 st0 = Shutdown X0 K_ok 0 st0 \<and>
   Socket_dtor X0 K_ok 1 st0 = st0"
proof -
  have h: "\<not> File_IsOpen X0 (File_closed X0)"
    by (simp add: X0_def)
  have o: "IsOpen X0 st0 0" and c: "\<not> IsOpen X0 st0 1"
    by (simp_all add: IsOpen_def X0_def st0_def)
  have d: "m_descriptor st0 0 = 3" "m_descriptor st0 (Suc 0) = - 1" "calls st0 = []"
    by (simp_all add: st0_def)
  have x: "File_closed X0 = - 1"
    by (simp add: X0_def)
  show ?thesis
    using h o c Shutdown_and_destructor [OF h, of st0 0 K_ok K_ok]
      Shutdown_and_destructor [OF h, of st0 1 "K_fail 9" "K_fail 9"]
      Shutdown_and_destructor [OF h, of st0 1 K_ok K_ok]
    by (simp add: d x)
qed

text \<open>
  C8. For every domain and type, \<open>Pair\<close> returns \<open>-EBUSY\<close> with the state as it was
  when either output socket is open. When both are closed and \<open>socketpair\<close> returns 0
  having written the descriptors \<open>fd1\<close> and \<open>fd2\<close>, \<open>Pair\<close> returns 0 after that one
  call, the second socket holds \<open>fd2\<close>, the first holds \<open>fd1\<close> unless it is the same
  object as the second, and no other socket changes. That the two descriptors are
  connected to each other is the kernel's doing.
\<close>

theorem Pair_contract:
  "(IsOpen X st o_socket1 \<or> IsOpen X st o_socket2 \<longrightarrow>
      Pair_sock X K D type o_socket1 o_socket2 st = (- EBUSY, st)) \<and>
   (\<not> IsOpen X st o_socket1 \<and> \<not> IsOpen X st o_socket2 \<and>
    ret (K (calls st) (sys_socketpair D type 0)) = 0 \<and>
    fds_out (K (calls st) (sys_socketpair D type 0)) = Some (fd1, fd2) \<longrightarrow>
      (let (e, st') = Pair_sock X K D type o_socket1 o_socket2 st
       in e = 0 \<and>
          calls st' = calls st @ [sys_socketpair D type 0] \<and>
          m_descriptor st' = ((m_descriptor st)(o_socket1 := fd1))(o_socket2 := fd2) \<and>
          m_descriptor st' o_socket2 = fd2 \<and>
          (o_socket1 \<noteq> o_socket2 \<longrightarrow> m_descriptor st' o_socket1 = fd1)))"
  by (simp add: Pair_sock_def do_syscall_def Let_def)

theorem Pair_contract_witness:
  "(IsOpen X0 st0 0 \<or> IsOpen X0 st0 1) \<and>
   Pair_sock X0 K_ok Unix SeqPacket 0 1 st0 = (- EBUSY, st0) \<and>
   \<not> IsOpen X0 st0 1 \<and> \<not> IsOpen X0 st0 2 \<and>
   ret (K_ok [] (sys_socketpair Unix SeqPacket 0)) = 0 \<and>
   fds_out (K_ok [] (sys_socketpair Unix SeqPacket 0)) = Some (8, 9) \<and>
   fst (Pair_sock X0 K_ok Unix SeqPacket 1 2 st0) = 0 \<and>
   (1::nat) \<noteq> 2 \<and>
   m_descriptor (snd (Pair_sock X0 K_ok Unix SeqPacket 1 2 st0)) 1 = 8 \<and>
   m_descriptor (snd (Pair_sock X0 K_ok Unix SeqPacket 1 2 st0)) 2 = 9"
  using Pair_contract [of X0 st0 0 1 K_ok Unix SeqPacket 8 9]
    Pair_contract [of X0 st0 1 2 K_ok Unix SeqPacket 8 9]
  by (simp add: IsOpen_def X0_def st0_def case_prod_beta)

text \<open>
  C9. When both output sockets are closed and \<open>socketpair\<close> does not return 0,
  \<open>Pair\<close> returns the negated \<open>errno\<close> as the call left it, no descriptor of any
  socket changes, and both output sockets are still closed.
\<close>

theorem Pair_failure_changes_nothing:
  "\<not> IsOpen X st o_socket1 \<and> \<not> IsOpen X st o_socket2 \<and>
   ret (K (calls st) (sys_socketpair D type 0)) \<noteq> 0 \<longrightarrow>
     (let r = K (calls st) (sys_socketpair D type 0);
          (e, st') = Pair_sock X K D type o_socket1 o_socket2 st
      in errno st' = (case errno_out r of None \<Rightarrow> errno st | Some n \<Rightarrow> n) \<and>
         e = - errno st' \<and>
         m_descriptor st' = m_descriptor st \<and>
         \<not> IsOpen X st' o_socket1 \<and> \<not> IsOpen X st' o_socket2)"
  by (simp add: Pair_sock_def do_syscall_def Let_def IsOpen_def)

theorem Pair_failure_changes_nothing_witness:
  "\<not> IsOpen X0 st0 1 \<and> \<not> IsOpen X0 st0 2 \<and>
   ret (K_fail 9 [] (sys_socketpair IPv4 Stream 0)) \<noteq> 0 \<and>
   fst (Pair_sock X0 (K_fail 9) IPv4 Stream 1 2 st0) = - 9 \<and>
   m_descriptor (snd (Pair_sock X0 (K_fail 9) IPv4 Stream 1 2 st0)) = m_descriptor st0 \<and>
   \<not> IsOpen X0 (snd (Pair_sock X0 (K_fail 9) IPv4 Stream 1 2 st0)) 1 \<and>
   \<not> IsOpen X0 (snd (Pair_sock X0 (K_fail 9) IPv4 Stream 1 2 st0)) 2"
proof -
  have c: "\<not> IsOpen X0 st0 1" "\<not> IsOpen X0 st0 2"
    by (simp_all add: IsOpen_def X0_def st0_def)
  have k: "K_fail 9 (calls st0) (sys_socketpair IPv4 Stream 0)
             = \<lparr>ret = - 1, errno_out = Some 9, addr_out = None, fds_out = None\<rparr>"
    by (simp add: K_fail_def)
  show ?thesis
    using c Pair_failure_changes_nothing [of X0 st0 1 2 "K_fail 9" IPv4 Stream]
    by (simp add: k K_fail_def case_prod_beta Let_def)
qed

text \<open>
  C10. \<open>Listen\<close> and \<open>Connect\<close> take no collaborator to ask: in every state, open
  socket or closed, each makes exactly one system call (\<open>listen\<close>, \<open>connect\<close>) on the
  stored descriptor and changes no descriptor. The result is fixed by what the call
  returns: \<open>Listen\<close> gives the negated \<open>errno\<close> when \<open>listen\<close> returns a negative
  value and the returned value (0 on success) otherwise; \<open>Connect\<close> gives 0 when
  \<open>connect\<close> returns 0 and the negated \<open>errno\<close> otherwise. So \<open>-EBUSY\<close> or \<open>-EINVAL\<close>
  comes back only when the call failed and left that value in \<open>errno\<close>.
\<close>

theorem Listen_Connect_unconditional:
  "(let c = sys_listen (m_descriptor st this) backlog;
        r = K (calls st) c;
        (e, st') = Listen K this backlog st
    in calls st' = calls st @ [c] \<and>
       m_descriptor st' = m_descriptor st \<and>
       errno st' = (case errno_out r of None \<Rightarrow> errno st | Some n \<Rightarrow> n) \<and>
       e = (if ret r < 0 then - errno st' else ret r) \<and>
       (ret r = 0 \<longrightarrow> e = 0) \<and>
       (e = - EBUSY \<longrightarrow> ret r < 0 \<and> errno st' = EBUSY) \<and>
       (e = - EINVAL \<longrightarrow> ret r < 0 \<and> errno st' = EINVAL)) \<and>
   (let c = sys_connect (m_descriptor st this) (GetBase a) (GetLength a);
        r = K (calls st) c;
        (e, st') = Connect K this a st
    in calls st' = calls st @ [c] \<and>
       m_descriptor st' = m_descriptor st \<and>
       errno st' = (case errno_out r of None \<Rightarrow> errno st | Some n \<Rightarrow> n) \<and>
       e = (if ret r \<noteq> 0 then - errno st' else 0) \<and>
       (e = - EBUSY \<longrightarrow> ret r \<noteq> 0 \<and> errno st' = EBUSY) \<and>
       (e = - EINVAL \<longrightarrow> ret r \<noteq> 0 \<and> errno st' = EINVAL))"
  by (simp add: Listen_def Connect_def do_syscall_def Let_def EBUSY_def EINVAL_def)

theorem Listen_Connect_unconditional_witness:
  "\<not> IsOpen X0 st0 1 \<and>
   ret (K_ok [] (sys_listen (- 1) 5)) = 0 \<and>
   fst (Listen K_ok 1 5 st0) = 0 \<and>
   calls (snd (Listen K_ok 1 5 st0)) = [sys_listen (- 1) 5] \<and>
   fst (Listen (K_fail EBUSY) 1 5 st0) = - EBUSY \<and>
   errno (snd (Listen (K_fail EBUSY) 1 5 st0)) = EBUSY \<and>
   fst (Listen (K_fail EINVAL) 1 5 st0) = - EINVAL \<and>
   errno (snd (Listen (K_fail EINVAL) 1 5 st0)) = EINVAL \<and>
   fst (Connect K_ok 1 \<lparr>m_bytes = [2, 0], m_length = 2\<rparr> st0) = 0 \<and>
   calls (snd (Connect K_ok 1 \<lparr>m_bytes = [2, 0], m_length = 2\<rparr> st0))
     = [sys_connect (- 1) [2, 0] 2] \<and>
   fst (Connect (K_fail EBUSY) 1 \<lparr>m_bytes = [2, 0], m_length = 2\<rparr> st0) = - EBUSY \<and>
   errno (snd (Connect (K_fail EBUSY) 1 \<lparr>m_bytes = [2, 0], m_length = 2\<rparr> st0)) = EBUSY \<and>
   fst (Connect (K_fail EINVAL) 1 \<lparr>m_bytes = [2, 0], m_length = 2\<rparr> st0) = - EINVAL \<and>
   errno (snd (Connect (K_fail EINVAL) 1 \<lparr>m_bytes = [2, 0], m_length = 2\<rparr> st0)) = EINVAL"
  using Listen_Connect_unconditional [of st0 1 5 K_ok "\<lparr>m_bytes = [2, 0], m_length = 2\<rparr>"]
    Listen_Connect_unconditional [of st0 1 5 "K_fail EBUSY" "\<lparr>m_bytes = [2, 0], m_length = 2\<rparr>"]
    Listen_Connect_unconditional [of st0 1 5 "K_fail EINVAL" "\<lparr>m_bytes = [2, 0], m_length = 2\<rparr>"]
  by (simp add: X0_def st0_def K_fail_def IsOpen_def GetBase_def GetLength_def Let_def
      case_prod_beta)

end
